theory Spec2Isabelle
  imports Main "HOL-Library.Word"
begin

section \<open>Types shared by the firmware sources\<close>

text \<open>
  The HAL status type \<^verbatim>\<open>cy_rslt_t\<close> is a 32-bit unsigned integer and
  \<^verbatim>\<open>CY_RSLT_SUCCESS\<close> is its zero value. PCM samples are \<^verbatim>\<open>int16_t\<close>, radar
  words are \<^verbatim>\<open>uint16_t\<close>; both are 16-bit words here, so that the implicit
  conversion in \<^verbatim>\<open>radar_data[i] = bgt60_buffer[i]\<close> keeps the bit pattern. The program
  only moves \<^verbatim>\<open>float\<close> values around, it never computes with them: a float is the
  32-bit word of its representation.
\<close>

type_synonym cy_rslt_t = "32 word"
type_synonym int16_t = "16 word"
type_synonym uint16_t = "16 word"
type_synonym float32 = "32 word"

definition CY_RSLT_SUCCESS :: cy_rslt_t where
  "CY_RSLT_SUCCESS = 0"

text \<open>
  Constants of \<^verbatim>\<open>config.h\<close>, which is not among the sources, are parameters.
  \<^verbatim>\<open>IM_ENABLE_IMU\<close> is \<open>None\<close> when the macro is undefined and \<open>Some v\<close> when it is
  defined with value \<open>v\<close>: \<^verbatim>\<open>main.c\<close> tests it once with \<^verbatim>\<open>#ifdef\<close> (line 111) and once
  with \<^verbatim>\<open>#if\<close> (line 133). \<open>CY_ASSERT_halts\<close> says whether \<^verbatim>\<open>CY_ASSERT(0)\<close> stops the
  processor (a debug build) or is compiled out (\<^verbatim>\<open>NDEBUG\<close>).
\<close>

record config =
  FRAME_SIZE :: nat
  IM_ENABLE_IMU :: "int option"
  IMU_AXIS :: nat
  CY_ASSERT_halts :: bool

definition imu_ifdef :: "config \<Rightarrow> bool" where
  "imu_ifdef cfg = (IM_ENABLE_IMU cfg \<noteq> None)"

definition imu_if :: "config \<Rightarrow> bool" where
  "imu_if cfg = (case IM_ENABLE_IMU cfg of None \<Rightarrow> False | Some v \<Rightarrow> v \<noteq> 0)"

section \<open>Program state and the trace of actions\<close>

text \<open>
  \<^verbatim>\<open>active_rx_buffer\<close> and \<^verbatim>\<open>full_rx_buffer\<close> are pointers with static storage: null
  until \<^verbatim>\<open>pdm_init\<close> assigns them, afterwards the address of one of the two audio
  buffers.
\<close>

datatype rx_ptr = PtrNull | PtrBuffer0 | PtrBuffer1

datatype channel = PROTOCOL_IMU_CHANNEL | PROTOCOL_AUDIO_CHANNEL

datatype payload = Pdm_frame "int16_t list" | Imu_frame "float32 list"

text \<open>
  The order of stores and calls is kept in a trace. Each entry says whether the
  foreground (\<^verbatim>\<open>main\<close>) or an interrupt handler performed it.
\<close>

datatype actor = Foreground | Isr

datatype action =
    Streaming_init
  | Protocol_init
  | Protocol_repl
  | Store_pdm_pcm_flag bool
  | Store_imu_flag bool
  | Pdm_preprocessing_feed
  | Imu_get_data
  | Protocol_send channel payload nat
  | Cyhal_pdm_pcm_register_callback
  | Cyhal_pdm_pcm_enable_event
  | Cyhal_pdm_pcm_read_async rx_ptr nat
  | NVIC_SystemReset

record sys =
  audio_buffer0 :: "int16_t list"
  audio_buffer1 :: "int16_t list"
  active_rx_buffer :: rx_ptr
  full_rx_buffer :: rx_ptr
  pdm_pcm_flag :: bool
  imu_flag :: bool
  transmit_pdm :: "int16_t list"
  transmit_imu :: "float32 list"
  log :: "(actor \<times> action) list"

definition emit :: "actor \<Rightarrow> action \<Rightarrow> sys \<Rightarrow> sys" where
  "emit c a s = s\<lparr>log := log s @ [(c, a)]\<rparr>"

definition new_events :: "sys \<Rightarrow> sys \<Rightarrow> (actor \<times> action) list" where
  "new_events s s' = drop (length (log s)) (log s')"

definition fg_trace :: "(actor \<times> action) list \<Rightarrow> action list" where
  "fg_trace l = map snd (filter (\<lambda>e. fst e = Foreground) l)"

definition deref :: "sys \<Rightarrow> rx_ptr \<Rightarrow> int16_t list option" where
  "deref s p = (case p of PtrNull \<Rightarrow> None
                | PtrBuffer0 \<Rightarrow> Some (audio_buffer0 s)
                | PtrBuffer1 \<Rightarrow> Some (audio_buffer1 s))"

section \<open>audio.c\<close>

text \<open>
  The statuses returned by the HAL calls of \<^verbatim>\<open>pdm_clock_init\<close> and \<^verbatim>\<open>pdm_init\<close>, in
  the order of the calls.
\<close>

record pdm_hal =
  pll_reserve :: cy_rslt_t
  pll_set_frequency :: cy_rslt_t
  pll_set_enabled :: cy_rslt_t
  hf_reserve :: cy_rslt_t
  hf_set_source :: cy_rslt_t
  hf_set_enabled :: cy_rslt_t
  pdm_pcm_init_result :: cy_rslt_t
  pdm_pcm_start_result :: cy_rslt_t

definition pdm_clock_init :: "pdm_hal \<Rightarrow> cy_rslt_t" where
  "pdm_clock_init h =
     (if CY_RSLT_SUCCESS \<noteq> pll_reserve h then pll_reserve h
      else if CY_RSLT_SUCCESS \<noteq> pll_set_frequency h then pll_set_frequency h
      else if CY_RSLT_SUCCESS \<noteq> pll_set_enabled h then pll_set_enabled h
      else if CY_RSLT_SUCCESS \<noteq> hf_reserve h then hf_reserve h
      else if CY_RSLT_SUCCESS \<noteq> hf_set_source h then hf_set_source h
      else if CY_RSLT_SUCCESS \<noteq> hf_set_enabled h then hf_set_enabled h
      else CY_RSLT_SUCCESS)"

definition cyhal_pdm_pcm_read_async :: "actor \<Rightarrow> rx_ptr \<Rightarrow> nat \<Rightarrow> sys \<Rightarrow> sys" where
  "cyhal_pdm_pcm_read_async c p n s = emit c (Cyhal_pdm_pcm_read_async p n) s"

definition pdm_init :: "config \<Rightarrow> pdm_hal \<Rightarrow> sys \<Rightarrow> cy_rslt_t \<times> sys" where
  "pdm_init cfg h s =
     (if CY_RSLT_SUCCESS \<noteq> pdm_clock_init h then (pdm_clock_init h, s)
      else if CY_RSLT_SUCCESS \<noteq> pdm_pcm_init_result h then (pdm_pcm_init_result h, s)
      else
        let s1 = emit Foreground Cyhal_pdm_pcm_register_callback s;
            s2 = emit Foreground Cyhal_pdm_pcm_enable_event s1
        in if CY_RSLT_SUCCESS \<noteq> pdm_pcm_start_result h then (pdm_pcm_start_result h, s2)
           else
             let s3 = s2\<lparr>active_rx_buffer := PtrBuffer0\<rparr>;
                 s4 = s3\<lparr>full_rx_buffer := PtrBuffer1\<rparr>;
                 s5 = emit Foreground (Store_pdm_pcm_flag False) (s4\<lparr>pdm_pcm_flag := False\<rparr>);
                 s6 = cyhal_pdm_pcm_read_async Foreground (active_rx_buffer s5) (FRAME_SIZE cfg) s5
             in (CY_RSLT_SUCCESS, s6))"

definition pdm_pcm_event_handler :: "config \<Rightarrow> sys \<Rightarrow> sys" where
  "pdm_pcm_event_handler cfg s =
     (let s1 = (if False = pdm_pcm_flag s then
                  let s' = emit Isr (Store_pdm_pcm_flag True) (s\<lparr>pdm_pcm_flag := True\<rparr>);
                      temp = active_rx_buffer s';
                      s'' = s'\<lparr>active_rx_buffer := full_rx_buffer s'\<rparr>
                  in s''\<lparr>full_rx_buffer := temp\<rparr>
                else s)
      in cyhal_pdm_pcm_read_async Isr (active_rx_buffer s1) (FRAME_SIZE cfg) s1)"

text \<open>
  The copy loops of \<^verbatim>\<open>pdm_preprocessing_feed\<close> and \<^verbatim>\<open>radar_get_data\<close>:
  \<^verbatim>\<open>for (index = 0; index < n; index++) dst[index] = src[index];\<close>
  Reading through a null pointer, or reading or writing past the end of an array, is
  the result \<open>None\<close>.
\<close>

function copy_samples :: "nat \<Rightarrow> nat \<Rightarrow> 'a list \<Rightarrow> 'a list option \<Rightarrow> 'a list option" where
  "copy_samples n index dst src =
     (if index < n then
        (case src of
           None \<Rightarrow> None
         | Some buf \<Rightarrow>
             if index < length buf \<and> index < length dst
             then copy_samples n (index + 1) (dst[index := buf ! index]) src
             else None)
      else Some dst)"
  by pat_completeness auto
termination
  by (relation "measure (\<lambda>(n, index, dst, src). n - index)") auto

declare copy_samples.simps [simp del]

definition pdm_preprocessing_feed :: "config \<Rightarrow> sys \<Rightarrow> int16_t list \<Rightarrow> int16_t list option" where
  "pdm_preprocessing_feed cfg s preprocessed_data =
     copy_samples (FRAME_SIZE cfg) 0 preprocessed_data (deref s (full_rx_buffer s))"

section \<open>Interrupts\<close>

text \<open>
  Modelled from the spec: \<^verbatim>\<open>imu.c\<close> is not among the sources. The handler of the IMU
  timer is the terminal-count handler of a polled channel, which "does exactly one thing:
  set the channel's ready-flag to true".
\<close>

definition imu_timer_intr_handler :: "sys \<Rightarrow> sys" where
  "imu_timer_intr_handler s = emit Isr (Store_imu_flag True) (s\<lparr>imu_flag := True\<rparr>)"

datatype irq = Pdm_async_complete | Imu_timer

fun handle_irq :: "config \<Rightarrow> irq \<Rightarrow> sys \<Rightarrow> sys" where
  "handle_irq cfg Pdm_async_complete s = pdm_pcm_event_handler cfg s"
| "handle_irq cfg Imu_timer s = imu_timer_intr_handler s"

text \<open>The handlers of the interrupts that arrive at one point of the foreground, in order.\<close>

definition fire :: "config \<Rightarrow> irq list \<Rightarrow> sys \<Rightarrow> sys" where
  "fire cfg irqs s = fold (handle_irq cfg) irqs s"

section \<open>main.c\<close>

text \<open>
  A run either goes on, or has stopped: at \<^verbatim>\<open>NVIC_SystemReset()\<close>, at a failed
  \<^verbatim>\<open>CY_ASSERT\<close>, or at an access through a null pointer or outside an array.
\<close>

datatype stop = System_reset | Assert_halt | Memory_fault

datatype exec = Run sys | Stop stop sys

fun exec_state :: "exec \<Rightarrow> sys" where
  "exec_state (Run s) = s"
| "exec_state (Stop r s) = s"

text \<open>
  One pass of the \<^verbatim>\<open>for (;;)\<close> loop of \<^verbatim>\<open>main\<close> (lines 127 to 151), in three parts.
  Interrupts are taken between the statements of the loop: \<open>sch k\<close> lists the interrupts
  that arrive at point \<open>k\<close> of the pass (0 before \<^verbatim>\<open>protocol_repl\<close>, 1 before the test
  of \<^verbatim>\<open>imu_flag\<close>, 2 to 4 inside the IMU branch, 5 before the test of \<^verbatim>\<open>pdm_pcm_flag\<close>,
  6 to 8 inside the audio branch). A call of \<^verbatim>\<open>pdm_preprocessing_feed\<close> or
  \<^verbatim>\<open>imu_get_data\<close> is one step here; \<open>loop_pdm_preempted\<close> below takes interrupts inside
  the copy loop as well. \<^verbatim>\<open>imu_get_data\<close> belongs to \<^verbatim>\<open>imu.c\<close>; \<open>rd\<close> maps the contents of the buffer
  before the call to its contents after it.
\<close>

definition loop_repl :: "config \<Rightarrow> (nat \<Rightarrow> irq list) \<Rightarrow> sys \<Rightarrow> sys" where
  "loop_repl cfg sch s =
     (let s0 = fire cfg (sch 0) s;
          s1 = emit Foreground Protocol_repl s0
      in fire cfg (sch 1) s1)"

definition loop_imu ::
  "config \<Rightarrow> (float32 list \<Rightarrow> float32 list) \<Rightarrow> (nat \<Rightarrow> irq list) \<Rightarrow> sys \<Rightarrow> sys" where
  "loop_imu cfg rd sch s =
     (if imu_if cfg then
        (if True = imu_flag s then
           let s1 = fire cfg (sch 2) s;
               s2 = fire cfg (sch 3) (emit Foreground (Store_imu_flag False) (s1\<lparr>imu_flag := False\<rparr>));
               s3 = fire cfg (sch 4)
                      (emit Foreground Imu_get_data (s2\<lparr>transmit_imu := rd (transmit_imu s2)\<rparr>));
               s4 = emit Foreground
                      (Protocol_send PROTOCOL_IMU_CHANNEL (Imu_frame (transmit_imu s3))
                         (4 * IMU_AXIS cfg)) s3
           in fire cfg (sch 5) s4
         else fire cfg (sch 5) s)
      else s)"

definition loop_pdm :: "config \<Rightarrow> (nat \<Rightarrow> irq list) \<Rightarrow> sys \<Rightarrow> exec" where
  "loop_pdm cfg sch s =
     (if True = pdm_pcm_flag s then
        let s1 = fire cfg (sch 6) s;
            s2 = fire cfg (sch 7)
                   (emit Foreground (Store_pdm_pcm_flag False) (s1\<lparr>pdm_pcm_flag := False\<rparr>))
        in case pdm_preprocessing_feed cfg s2 (transmit_pdm s2) of
             None \<Rightarrow> Stop Memory_fault (emit Foreground Pdm_preprocessing_feed s2)
           | Some d \<Rightarrow>
               let s3 = fire cfg (sch 8)
                          (emit Foreground Pdm_preprocessing_feed (s2\<lparr>transmit_pdm := d\<rparr>));
                   s4 = emit Foreground
                          (Protocol_send PROTOCOL_AUDIO_CHANNEL (Pdm_frame (transmit_pdm s3))
                             (2 * FRAME_SIZE cfg)) s3
               in Run s4
      else Run s)"

definition loop_pass ::
  "config \<Rightarrow> (float32 list \<Rightarrow> float32 list) \<Rightarrow> (nat \<Rightarrow> irq list) \<Rightarrow> sys \<Rightarrow> exec" where
  "loop_pass cfg rd sch s = loop_pdm cfg sch (loop_imu cfg rd sch (loop_repl cfg sch s))"

text \<open>
  The copy loop of \<^verbatim>\<open>pdm_preprocessing_feed\<close> (audio.c, lines 261 to 264) with interrupts
  taken between its iterations: \<open>isch index\<close> lists the interrupts that arrive after the
  store of iteration \<open>index\<close>. Every iteration reads the global \<^verbatim>\<open>full_rx_buffer\<close> anew.
\<close>

function pdm_preprocessing_feed_preempted ::
  "config \<Rightarrow> (nat \<Rightarrow> irq list) \<Rightarrow> nat \<Rightarrow> sys \<Rightarrow> int16_t list \<Rightarrow> (sys \<times> int16_t list) option" where
  "pdm_preprocessing_feed_preempted cfg isch index s preprocessed_data =
     (if index < FRAME_SIZE cfg then
        (case deref s (full_rx_buffer s) of
           None \<Rightarrow> None
         | Some buf \<Rightarrow>
             if index < length buf \<and> index < length preprocessed_data
             then pdm_preprocessing_feed_preempted cfg isch (index + 1)
                    (fire cfg (isch index) s) (preprocessed_data[index := buf ! index])
             else None)
      else Some (s, preprocessed_data))"
  by pat_completeness auto
termination
  by (relation "measure (\<lambda>(cfg, isch, index, s, d). FRAME_SIZE cfg - index)") auto

declare pdm_preprocessing_feed_preempted.simps [simp del]

text \<open>
  The audio branch of the loop of \<^verbatim>\<open>main\<close> (lines 143 to 150) as in \<open>loop_pdm\<close>, with the
  interrupts \<open>isch\<close> inside the call of \<^verbatim>\<open>pdm_preprocessing_feed\<close> as well.
\<close>

definition loop_pdm_preempted ::
  "config \<Rightarrow> (nat \<Rightarrow> irq list) \<Rightarrow> (nat \<Rightarrow> irq list) \<Rightarrow> sys \<Rightarrow> exec" where
  "loop_pdm_preempted cfg sch isch s =
     (if True = pdm_pcm_flag s then
        let s1 = fire cfg (sch 6) s;
            s2 = fire cfg (sch 7)
                   (emit Foreground (Store_pdm_pcm_flag False) (s1\<lparr>pdm_pcm_flag := False\<rparr>))
        in case pdm_preprocessing_feed_preempted cfg isch 0 s2 (transmit_pdm s2) of
             None \<Rightarrow> Stop Memory_fault (emit Foreground Pdm_preprocessing_feed s2)
           | Some (s2', d) \<Rightarrow>
               let s3 = fire cfg (sch 8)
                          (emit Foreground Pdm_preprocessing_feed (s2'\<lparr>transmit_pdm := d\<rparr>));
                   s4 = emit Foreground
                          (Protocol_send PROTOCOL_AUDIO_CHANNEL (Pdm_frame (transmit_pdm s3))
                             (2 * FRAME_SIZE cfg)) s3
               in Run s4
      else Run s)"

text \<open>
  What the surroundings of \<^verbatim>\<open>main\<close> decide: the statuses of the initialisation calls
  (\<^verbatim>\<open>imu_init\<close> belongs to \<^verbatim>\<open>imu.c\<close>), what the IMU driver delivers in each pass, and
  which interrupts arrive, during start-up and at each point of each pass.
\<close>

record env =
  cybsp_init_result :: cy_rslt_t
  pdm_hal_results :: pdm_hal
  imu_init_result :: cy_rslt_t
  imu_read :: "nat \<Rightarrow> float32 list \<Rightarrow> float32 list"
  boot_interrupts :: "irq list"
  interrupts :: "nat \<Rightarrow> nat \<Rightarrow> irq list"

text \<open>Objects with static storage start as zero.\<close>

definition boot_state :: "config \<Rightarrow> sys" where
  "boot_state cfg =
     \<lparr> audio_buffer0 = replicate (FRAME_SIZE cfg) 0,
       audio_buffer1 = replicate (FRAME_SIZE cfg) 0,
       active_rx_buffer = PtrNull,
       full_rx_buffer = PtrNull,
       pdm_pcm_flag = False,
       imu_flag = False,
       transmit_pdm = [],
       transmit_imu = [],
       log = [] \<rparr>"

text \<open>The loop never ends by itself; \<open>main_loop\<close> runs the given number of passes of it.\<close>

fun main_loop :: "config \<Rightarrow> env \<Rightarrow> nat \<Rightarrow> nat \<Rightarrow> sys \<Rightarrow> exec" where
  "main_loop cfg e k 0 s = Run s"
| "main_loop cfg e k (Suc n) s =
     (case loop_pass cfg (imu_read e k) (interrupts e k) s of
        Run s' \<Rightarrow> main_loop cfg e (Suc k) n s'
      | Stop r s' \<Rightarrow> Stop r s')"

text \<open>
  \<^verbatim>\<open>main\<close> up to the given number of passes of its loop. The LED and the debug UART
  (lines 84 to 96) touch nothing of the state above and are left out.
\<close>

definition main :: "config \<Rightarrow> env \<Rightarrow> nat \<Rightarrow> exec" where
  "main cfg e n =
     (let s = boot_state cfg;
          result = cybsp_init_result e
      in if result \<noteq> CY_RSLT_SUCCESS \<and> CY_ASSERT_halts cfg then Stop Assert_halt s
         else
           let s1 = emit Foreground Streaming_init s;
               s2 = emit Foreground Protocol_init s1;
               s3 = s2\<lparr>transmit_pdm := replicate (FRAME_SIZE cfg) 0\<rparr>;
               (result, s4) = pdm_init cfg (pdm_hal_results e) s3;
               (result, s5) =
                  (if imu_ifdef cfg
                   then (imu_init_result e, s4\<lparr>transmit_imu := replicate (IMU_AXIS cfg) 0\<rparr>)
                   else (result, s4));
               s6 = fire cfg (boot_interrupts e) s5
           in if CY_RSLT_SUCCESS \<noteq> result
              then Stop System_reset (emit Foreground NVIC_SystemReset s6)
              else main_loop cfg e 0 n s6)"

section \<open>dps.c\<close>

text \<open>
  The HAL timer, as \<^verbatim>\<open>dps_timer_init\<close> and \<^verbatim>\<open>radar_timer_init\<close> use it: the status of
  each call, which may depend on the arguments passed.
\<close>

datatype cyhal_timer_direction_t = CYHAL_TIMER_DIR_UP | CYHAL_TIMER_DIR_DOWN

record cyhal_timer_cfg_t =
  is_continuous :: bool
  direction :: cyhal_timer_direction_t
  is_compare :: bool
  period :: "32 word"
  compare_value :: "32 word"
  initial_value :: "32 word"

record timer_hal =
  cyhal_timer_init :: cy_rslt_t
  cyhal_timer_configure :: "cyhal_timer_cfg_t \<Rightarrow> cy_rslt_t"
  cyhal_timer_set_frequency :: "32 word \<Rightarrow> cy_rslt_t"
  cyhal_timer_start :: cy_rslt_t

definition DPS_SCAN_RATE :: int where
  "DPS_SCAN_RATE = 50"

definition DPS_TIMER_FREQUENCY :: int where
  "DPS_TIMER_FREQUENCY = 100000"

definition DPS_TIMER_PERIOD :: int where
  "DPS_TIMER_PERIOD = DPS_TIMER_FREQUENCY div DPS_SCAN_RATE"

definition dps_timer_cfg :: cyhal_timer_cfg_t where
  "dps_timer_cfg =
     \<lparr> is_continuous = True,
       direction = CYHAL_TIMER_DIR_UP,
       is_compare = False,
       period = word_of_int DPS_TIMER_PERIOD,
       compare_value = 0,
       initial_value = 0 \<rparr>"

definition dps_timer_init :: "timer_hal \<Rightarrow> cy_rslt_t" where
  "dps_timer_init t =
     (if CY_RSLT_SUCCESS \<noteq> cyhal_timer_init t then cyhal_timer_init t
      else if CY_RSLT_SUCCESS \<noteq> cyhal_timer_configure t dps_timer_cfg
        then cyhal_timer_configure t dps_timer_cfg
      else if CY_RSLT_SUCCESS \<noteq> cyhal_timer_set_frequency t (word_of_int DPS_TIMER_FREQUENCY)
        then cyhal_timer_set_frequency t (word_of_int DPS_TIMER_FREQUENCY)
      else if CY_RSLT_SUCCESS \<noteq> cyhal_timer_start t then cyhal_timer_start t
      else CY_RSLT_SUCCESS)"

text \<open>
  The statuses of the driver calls of \<^verbatim>\<open>dps_init\<close>, in the order of the calls. A call of
  \<^verbatim>\<open>dps_init\<close> returns a status and the value it leaves in \<^verbatim>\<open>dps_flag\<close>, or it stops at
  \<^verbatim>\<open>CY_ASSERT(0)\<close>. The oversampling values written into the configuration are not part
  of the model.
\<close>

record dps_hal =
  init_i2c :: cy_rslt_t
  get_config_pressure :: cy_rslt_t
  set_config_pressure :: cy_rslt_t
  get_config_temperature :: cy_rslt_t
  set_config_temperature :: cy_rslt_t
  dps_timer :: timer_hal

datatype 'a call = Returns 'a | Halts

definition dps_init :: "bool \<Rightarrow> dps_hal \<Rightarrow> (cy_rslt_t \<times> bool) call" where
  "dps_init assert_halts h =
     (let result = init_i2c h
      in if result \<noteq> CY_RSLT_SUCCESS \<and> assert_halts then Halts
         else
           let result = get_config_pressure h;
               result = set_config_pressure h;
               result = get_config_temperature h;
               result = set_config_temperature h;
               dps_flag = False;
               result = dps_timer_init (dps_timer h)
           in if CY_RSLT_SUCCESS \<noteq> result then Returns (result, dps_flag)
              else Returns (CY_RSLT_SUCCESS, dps_flag))"

text \<open>
  \<^verbatim>\<open>dps_get_data\<close>: \<open>rd\<close> is what \<^verbatim>\<open>xensiv_dps3xx_read\<close> delivers (status, pressure,
  temperature). The result is the status and the caller's buffer after the call, or
  \<open>None\<close> when the buffer has no room for two values.
\<close>

definition dps_get_data ::
  "cy_rslt_t \<times> float32 \<times> float32 \<Rightarrow> float32 list \<Rightarrow> (cy_rslt_t \<times> float32 list) option" where
  "dps_get_data rd dps_data =
     (case rd of (result, pressure, temperature) \<Rightarrow>
        if CY_RSLT_SUCCESS = result then
          (if 1 < length dps_data
           then Some (result, (dps_data[0 := pressure])[1 := temperature])
           else None)
        else Some (result, dps_data))"

section \<open>radar.c\<close>

text \<open>
  \<^verbatim>\<open>RADAR_AXIS\<close> (\<^verbatim>\<open>config.h\<close>) and the three factors of \<^verbatim>\<open>NUM_SAMPLES_PER_FRAME\<close>
  (\<^verbatim>\<open>radar_settings.h\<close>) are declared outside the sources and are parameters.
\<close>

record radar_config =
  IM_ENABLE_RADAR :: bool
  RADAR_AXIS :: nat
  XENSIV_BGT60TRXX_CONF_NUM_SAMPLES_PER_CHIRP :: nat
  XENSIV_BGT60TRXX_CONF_NUM_CHIRPS_PER_FRAME :: nat
  XENSIV_BGT60TRXX_CONF_NUM_RX_ANTENNAS :: nat

definition NUM_SAMPLES_PER_FRAME :: "radar_config \<Rightarrow> nat" where
  "NUM_SAMPLES_PER_FRAME rc =
     XENSIV_BGT60TRXX_CONF_NUM_SAMPLES_PER_CHIRP rc *
     XENSIV_BGT60TRXX_CONF_NUM_CHIRPS_PER_FRAME rc *
     XENSIV_BGT60TRXX_CONF_NUM_RX_ANTENNAS rc"

definition RADAR_SCAN_RATE :: int where
  "RADAR_SCAN_RATE = 16"

definition RADAR_TIMER_FREQUENCY :: int where
  "RADAR_TIMER_FREQUENCY = 100000"

definition RADAR_TIMER_PERIOD :: int where
  "RADAR_TIMER_PERIOD = RADAR_TIMER_FREQUENCY div RADAR_SCAN_RATE"

definition radar_timer_cfg :: cyhal_timer_cfg_t where
  "radar_timer_cfg =
     \<lparr> is_continuous = True,
       direction = CYHAL_TIMER_DIR_UP,
       is_compare = False,
       period = word_of_int RADAR_TIMER_PERIOD,
       compare_value = 0,
       initial_value = 0 \<rparr>"

definition radar_timer_init :: "timer_hal \<Rightarrow> cy_rslt_t" where
  "radar_timer_init t =
     (if CY_RSLT_SUCCESS \<noteq> cyhal_timer_init t then cyhal_timer_init t
      else if CY_RSLT_SUCCESS \<noteq> cyhal_timer_configure t radar_timer_cfg
        then cyhal_timer_configure t radar_timer_cfg
      else if CY_RSLT_SUCCESS \<noteq> cyhal_timer_set_frequency t (word_of_int RADAR_TIMER_FREQUENCY)
        then cyhal_timer_set_frequency t (word_of_int RADAR_TIMER_FREQUENCY)
      else if CY_RSLT_SUCCESS \<noteq> cyhal_timer_start t then cyhal_timer_start t
      else cyhal_timer_start t)"

text \<open>
  \<^verbatim>\<open>radar_get_data\<close>: \<open>get_fifo_data buf n\<close> is what \<^verbatim>\<open>xensiv_bgt60trxx_get_fifo_data\<close>
  does when asked for \<open>n\<close> samples into a capture buffer holding \<open>buf\<close>: its status and the
  contents of the buffer afterwards. The result is the capture buffer and the caller's
  buffer after the call, or \<open>None\<close> when the loop leaves one of the two arrays.
\<close>

definition radar_get_data ::
  "radar_config \<Rightarrow> (uint16_t list \<Rightarrow> nat \<Rightarrow> cy_rslt_t \<times> uint16_t list) \<Rightarrow>
     uint16_t list \<Rightarrow> int16_t list \<Rightarrow> (uint16_t list \<times> int16_t list) option" where
  "radar_get_data rc get_fifo_data bgt60_buffer radar_data =
     (if IM_ENABLE_RADAR rc then
        (case get_fifo_data bgt60_buffer (NUM_SAMPLES_PER_FRAME rc) of
           (result, captured) \<Rightarrow>
             if CY_RSLT_SUCCESS = result then
               (case copy_samples (RADAR_AXIS rc) 0 radar_data (Some captured) of
                  None \<Rightarrow> None
                | Some d \<Rightarrow> Some (captured, d))
             else Some (captured, radar_data))
      else Some (bgt60_buffer, radar_data))"

section \<open>Predicates used by the properties\<close>

text \<open>The two references name the two audio buffers, one each.\<close>

definition ping_pong :: "sys \<Rightarrow> bool" where
  "ping_pong s =
     (active_rx_buffer s = PtrBuffer0 \<and> full_rx_buffer s = PtrBuffer1
      \<or> active_rx_buffer s = PtrBuffer1 \<and> full_rx_buffer s = PtrBuffer0)"

text \<open>
  What the declarations give: both audio buffers and the transmit buffer (seen as
  \<^verbatim>\<open>int16_t\<close>) hold \<open>FRAME_SIZE\<close> samples; and \<^verbatim>\<open>pdm_init\<close> has set the two references.
\<close>

definition wf_audio :: "config \<Rightarrow> sys \<Rightarrow> bool" where
  "wf_audio cfg s =
     (length (audio_buffer0 s) = FRAME_SIZE cfg
      \<and> length (audio_buffer1 s) = FRAME_SIZE cfg
      \<and> length (transmit_pdm s) = FRAME_SIZE cfg
      \<and> active_rx_buffer s \<noteq> PtrNull
      \<and> full_rx_buffer s \<noteq> PtrNull)"

text \<open>
  The states of the audio channel after a successful \<^verbatim>\<open>pdm_init\<close>: any number of
  interrupt handlers and of parts of the foreground loop, in any order.
\<close>

inductive reachable :: "config \<Rightarrow> sys \<Rightarrow> bool" for cfg :: config where
  after_init: "pdm_init cfg h s0 = (CY_RSLT_SUCCESS, s) \<Longrightarrow> reachable cfg s"
| interrupt: "reachable cfg s \<Longrightarrow> reachable cfg (handle_irq cfg i s)"
| repl: "reachable cfg s \<Longrightarrow> reachable cfg (loop_repl cfg sch s)"
| imu_service: "reachable cfg s \<Longrightarrow> reachable cfg (loop_imu cfg rd sch s)"
| pdm_service: "reachable cfg s \<Longrightarrow> reachable cfg (exec_state (loop_pdm cfg sch s))"

fun is_read_async :: "action \<Rightarrow> bool" where
  "is_read_async (Cyhal_pdm_pcm_read_async p n) = True"
| "is_read_async a = False"


text \<open>
  The order of the specification for the audio service, on a trace of foreground actions:
  the copy comes before the clearing of the flag, and the clearing comes last.
\<close>

definition spec_copy_then_clear :: "action list \<Rightarrow> bool" where
  "spec_copy_then_clear tr =
     (tr \<noteq> [] \<and> last tr = Store_pdm_pcm_flag False
      \<and> Pdm_preprocessing_feed \<in> set (butlast tr)
      \<and> Store_pdm_pcm_flag False \<notin> set (butlast tr))"

text \<open>Concrete inputs at which the properties below are evaluated.\<close>

definition cfg_imu :: config where
  "cfg_imu = \<lparr> FRAME_SIZE = 2, IM_ENABLE_IMU = Some 1, IMU_AXIS = 3, CY_ASSERT_halts = True \<rparr>"

definition hal_ok :: pdm_hal where
  "hal_ok = \<lparr> pll_reserve = 0, pll_set_frequency = 0, pll_set_enabled = 0, hf_reserve = 0,
              hf_set_source = 0, hf_set_enabled = 0, pdm_pcm_init_result = 0,
              pdm_pcm_start_result = 0 \<rparr>"

definition hal_start_fails :: pdm_hal where
  "hal_start_fails = hal_ok\<lparr>pdm_pcm_start_result := 1\<rparr>"

definition no_irqs :: "nat \<Rightarrow> irq list" where
  "no_irqs k = []"

definition frame_pending :: sys where
  "frame_pending =
     \<lparr> audio_buffer0 = [1, 2], audio_buffer1 = [3, 4],
       active_rx_buffer = PtrBuffer0, full_rx_buffer = PtrBuffer1,
       pdm_pcm_flag = True, imu_flag = False,
       transmit_pdm = [0, 0], transmit_imu = [0, 0, 0], log = [] \<rparr>"

definition frame_free :: sys where
  "frame_free = frame_pending\<lparr>pdm_pcm_flag := False\<rparr>"

definition env_pdm_fails :: env where
  "env_pdm_fails =
     \<lparr> cybsp_init_result = 0,
       pdm_hal_results = hal_start_fails,
       imu_init_result = 0,
       imu_read = (\<lambda>k buf. [1, 2, 3]),
       boot_interrupts = [],
       interrupts = (\<lambda>k p. if k = 0 \<and> p = 0 then [Imu_timer] else []) \<rparr>"


definition imu_sample :: "float32 list \<Rightarrow> float32 list" where
  "imu_sample buf = [1, 2, 3]"

definition irq_after_clear :: "nat \<Rightarrow> irq list" where
  "irq_after_clear k = (if k = 7 then [Pdm_async_complete] else [])"

definition irq_in_copy :: "nat \<Rightarrow> irq list" where
  "irq_in_copy index = (if index = 0 then [Pdm_async_complete] else [])"

text \<open>
  The frame of the specification for the radar channel, on a result of \<^verbatim>\<open>radar_get_data\<close>:
  the first \<open>NUM_SAMPLES_PER_FRAME\<close> samples of the caller's buffer are those of the capture
  buffer.
\<close>

definition spec_full_frame_copied ::
  "radar_config \<Rightarrow> (uint16_t list \<times> int16_t list) option \<Rightarrow> bool" where
  "spec_full_frame_copied rc r =
     (case r of
        None \<Rightarrow> False
      | Some (captured, d) \<Rightarrow>
          take (NUM_SAMPLES_PER_FRAME rc) d = take (NUM_SAMPLES_PER_FRAME rc) captured)"

definition radar_cfg_short :: radar_config where
  "radar_cfg_short =
     \<lparr> IM_ENABLE_RADAR = True, RADAR_AXIS = 1,
       XENSIV_BGT60TRXX_CONF_NUM_SAMPLES_PER_CHIRP = 2,
       XENSIV_BGT60TRXX_CONF_NUM_CHIRPS_PER_FRAME = 1,
       XENSIV_BGT60TRXX_CONF_NUM_RX_ANTENNAS = 1 \<rparr>"

definition radar_cfg_full :: radar_config where
  "radar_cfg_full = radar_cfg_short\<lparr>RADAR_AXIS := 2\<rparr>"

definition fifo_ok :: "uint16_t list \<Rightarrow> nat \<Rightarrow> cy_rslt_t \<times> uint16_t list" where
  "fifo_ok buf n = (CY_RSLT_SUCCESS, [1, 2])"

definition fifo_fails :: "uint16_t list \<Rightarrow> nat \<Rightarrow> cy_rslt_t \<times> uint16_t list" where
  "fifo_fails buf n = (1, [9, 9])"

definition timer_ok :: timer_hal where
  "timer_ok =
     \<lparr> cyhal_timer_init = CY_RSLT_SUCCESS,
       cyhal_timer_configure = (\<lambda>c. CY_RSLT_SUCCESS),
       cyhal_timer_set_frequency = (\<lambda>f. CY_RSLT_SUCCESS),
       cyhal_timer_start = CY_RSLT_SUCCESS \<rparr>"

definition dps_hal_ok :: dps_hal where
  "dps_hal_ok =
     \<lparr> init_i2c = CY_RSLT_SUCCESS,
       get_config_pressure = CY_RSLT_SUCCESS,
       set_config_pressure = CY_RSLT_SUCCESS,
       get_config_temperature = CY_RSLT_SUCCESS,
       set_config_temperature = CY_RSLT_SUCCESS,
       dps_timer = timer_ok \<rparr>"

definition dps_hal_i2c_fails :: dps_hal where
  "dps_hal_i2c_fails = dps_hal_ok\<lparr>init_i2c := 1\<rparr>"

definition dps_hal_start_fails :: dps_hal where
  "dps_hal_start_fails = dps_hal_ok\<lparr>dps_timer := timer_ok\<lparr>cyhal_timer_start := 1\<rparr>\<rparr>"

section \<open>Properties of the audio channel\<close>

lemma log_emit [simp]: "log (emit c a s) = log s @ [(c, a)]"
  by (simp add: emit_def)

lemma emit_fields [simp]:
  "audio_buffer0 (emit c a s) = audio_buffer0 s"
  "audio_buffer1 (emit c a s) = audio_buffer1 s"
  "active_rx_buffer (emit c a s) = active_rx_buffer s"
  "full_rx_buffer (emit c a s) = full_rx_buffer s"
  "pdm_pcm_flag (emit c a s) = pdm_pcm_flag s"
  "imu_flag (emit c a s) = imu_flag s"
  "transmit_pdm (emit c a s) = transmit_pdm s"
  "transmit_imu (emit c a s) = transmit_imu s"
  by (simp_all add: emit_def)

text \<open>
  C1. One run of \<^verbatim>\<open>pdm_pcm_event_handler\<close>: with the ready-flag false at entry the flag
  becomes true and the active and full references are exchanged; with the flag true at
  entry the two references, the flag and the contents of both buffers (so the frame that
  has not been consumed) stay as they were; in both cases the last action of the handler is
  the asynchronous read of \<open>FRAME_SIZE\<close> samples into the buffer that is active on exit.
\<close>

theorem pdm_pcm_event_handler_swap_or_keep:
  "(\<not> pdm_pcm_flag s \<longrightarrow>
      pdm_pcm_flag (pdm_pcm_event_handler cfg s)
      \<and> active_rx_buffer (pdm_pcm_event_handler cfg s) = full_rx_buffer s
      \<and> full_rx_buffer (pdm_pcm_event_handler cfg s) = active_rx_buffer s)
   \<and> (pdm_pcm_flag s \<longrightarrow>
      pdm_pcm_flag (pdm_pcm_event_handler cfg s)
      \<and> active_rx_buffer (pdm_pcm_event_handler cfg s) = active_rx_buffer s
      \<and> full_rx_buffer (pdm_pcm_event_handler cfg s) = full_rx_buffer s
      \<and> deref (pdm_pcm_event_handler cfg s) (full_rx_buffer (pdm_pcm_event_handler cfg s))
          = deref s (full_rx_buffer s))
   \<and> audio_buffer0 (pdm_pcm_event_handler cfg s) = audio_buffer0 s
   \<and> audio_buffer1 (pdm_pcm_event_handler cfg s) = audio_buffer1 s
   \<and> (\<exists>pre. log (pdm_pcm_event_handler cfg s) = log s @ pre @
         [(Isr, Cyhal_pdm_pcm_read_async
                  (active_rx_buffer (pdm_pcm_event_handler cfg s)) (FRAME_SIZE cfg))])
   \<and> last (log (pdm_pcm_event_handler cfg s)) =
         (Isr, Cyhal_pdm_pcm_read_async
                  (active_rx_buffer (pdm_pcm_event_handler cfg s)) (FRAME_SIZE cfg))"
  by (cases "pdm_pcm_flag s")
     (simp_all add: pdm_pcm_event_handler_def cyhal_pdm_pcm_read_async_def deref_def Let_def
        split: rx_ptr.split)

theorem pdm_pcm_event_handler_swap_or_keep_witness:
  "\<not> pdm_pcm_flag frame_free
   \<and> pdm_pcm_flag (pdm_pcm_event_handler cfg_imu frame_free)
   \<and> active_rx_buffer (pdm_pcm_event_handler cfg_imu frame_free) = PtrBuffer1
   \<and> full_rx_buffer (pdm_pcm_event_handler cfg_imu frame_free) = PtrBuffer0
   \<and> pdm_pcm_flag frame_pending
   \<and> active_rx_buffer (pdm_pcm_event_handler cfg_imu frame_pending) = PtrBuffer0
   \<and> full_rx_buffer (pdm_pcm_event_handler cfg_imu frame_pending) = PtrBuffer1
   \<and> deref (pdm_pcm_event_handler cfg_imu frame_pending) PtrBuffer1 = Some [3, 4]
   \<and> last (log (pdm_pcm_event_handler cfg_imu frame_free))
        = (Isr, Cyhal_pdm_pcm_read_async PtrBuffer1 2)
   \<and> last (log (pdm_pcm_event_handler cfg_imu frame_pending))
        = (Isr, Cyhal_pdm_pcm_read_async PtrBuffer0 2)"
  using pdm_pcm_event_handler_swap_or_keep [of frame_free cfg_imu]
    pdm_pcm_event_handler_swap_or_keep [of frame_pending cfg_imu]
  by (simp add: frame_free_def frame_pending_def cfg_imu_def deref_def)

lemma handler_fields [simp]:
  "audio_buffer0 (pdm_pcm_event_handler cfg s) = audio_buffer0 s"
  "audio_buffer1 (pdm_pcm_event_handler cfg s) = audio_buffer1 s"
  "transmit_pdm (pdm_pcm_event_handler cfg s) = transmit_pdm s"
  "transmit_imu (pdm_pcm_event_handler cfg s) = transmit_imu s"
  "imu_flag (pdm_pcm_event_handler cfg s) = imu_flag s"
  by (simp_all add: pdm_pcm_event_handler_def cyhal_pdm_pcm_read_async_def Let_def)

lemma handler_pointers:
  "active_rx_buffer (pdm_pcm_event_handler cfg s) =
     (if pdm_pcm_flag s then active_rx_buffer s else full_rx_buffer s)"
  "full_rx_buffer (pdm_pcm_event_handler cfg s) =
     (if pdm_pcm_flag s then full_rx_buffer s else active_rx_buffer s)"
  by (simp_all add: pdm_pcm_event_handler_def cyhal_pdm_pcm_read_async_def Let_def)


lemma imu_handler_fields [simp]:
  "audio_buffer0 (imu_timer_intr_handler s) = audio_buffer0 s"
  "audio_buffer1 (imu_timer_intr_handler s) = audio_buffer1 s"
  "transmit_pdm (imu_timer_intr_handler s) = transmit_pdm s"
  "transmit_imu (imu_timer_intr_handler s) = transmit_imu s"
  "active_rx_buffer (imu_timer_intr_handler s) = active_rx_buffer s"
  "full_rx_buffer (imu_timer_intr_handler s) = full_rx_buffer s"
  "pdm_pcm_flag (imu_timer_intr_handler s) = pdm_pcm_flag s"
  by (simp_all add: imu_timer_intr_handler_def)

lemma handle_irq_ping_pong: "ping_pong s \<Longrightarrow> ping_pong (handle_irq cfg i s)"
  by (cases i; cases "pdm_pcm_flag s") (auto simp: ping_pong_def handler_pointers)

lemma handle_irq_wf: "wf_audio cfg s \<Longrightarrow> wf_audio cfg (handle_irq cfg i s)"
  by (cases i; cases "pdm_pcm_flag s") (auto simp: wf_audio_def handler_pointers)


lemma handle_irq_transmit [simp]:
  "transmit_pdm (handle_irq cfg i s) = transmit_pdm s"
  "transmit_imu (handle_irq cfg i s) = transmit_imu s"
  "audio_buffer0 (handle_irq cfg i s) = audio_buffer0 s"
  "audio_buffer1 (handle_irq cfg i s) = audio_buffer1 s"
  by (cases i; simp)+

lemma fire_Nil [simp]: "fire cfg [] s = s"
  by (simp add: fire_def)

lemma fire_Cons [simp]: "fire cfg (i # irqs) s = fire cfg irqs (handle_irq cfg i s)"
  by (simp add: fire_def)

lemma fire_ping_pong: "ping_pong s \<Longrightarrow> ping_pong (fire cfg irqs s)"
  by (induction irqs arbitrary: s) (simp_all add: handle_irq_ping_pong)

lemma fire_wf: "wf_audio cfg s \<Longrightarrow> wf_audio cfg (fire cfg irqs s)"
  by (induction irqs arbitrary: s) (simp_all add: handle_irq_wf)

lemma fire_transmit [simp]:
  "transmit_pdm (fire cfg irqs s) = transmit_pdm s"
  "transmit_imu (fire cfg irqs s) = transmit_imu s"
  "audio_buffer0 (fire cfg irqs s) = audio_buffer0 s"
  "audio_buffer1 (fire cfg irqs s) = audio_buffer1 s"
  by (induction irqs arbitrary: s; simp)+

lemma fg_trace_append [simp]: "fg_trace (l @ m) = fg_trace l @ fg_trace m"
  by (simp add: fg_trace_def)


lemma copy_samples_Some:
  "index \<le> n \<Longrightarrow> n \<le> length buf \<Longrightarrow> n \<le> length dst \<Longrightarrow>
   copy_samples n index dst (Some buf) =
     Some (take index dst @ take (n - index) (drop index buf) @ drop n dst)"
proof (induction n index dst "Some buf" rule: copy_samples.induct)
  case (1 n index dst)
  show ?case
  proof (cases "index < n")
    case True
    have step: "copy_samples n index dst (Some buf)
                  = copy_samples n (index + 1) (dst[index := buf ! index]) (Some buf)"
      using True "1.prems" by (subst copy_samples.simps) simp
    have ih: "copy_samples n (index + 1) (dst[index := buf ! index]) (Some buf) =
        Some (take (index + 1) (dst[index := buf ! index])
              @ take (n - (index + 1)) (drop (index + 1) buf)
              @ drop n (dst[index := buf ! index]))"
      using True "1.prems" by (intro "1.hyps") simp_all
    have a: "take (index + 1) (dst[index := buf ! index]) = take index dst @ [buf ! index]"
      using True "1.prems" by (simp add: take_Suc_conv_app_nth)
    have b: "take (n - index) (drop index buf)
               = buf ! index # take (n - (index + 1)) (drop (index + 1) buf)"
      using True "1.prems"
      by (metis Cons_nth_drop_Suc Suc_diff_Suc Suc_eq_plus1 less_le_trans take_Suc_Cons)
    have c: "drop n (dst[index := buf ! index]) = drop n dst"
      using True by simp
    show ?thesis
      by (simp only: step ih a b c) simp
  next
    case False
    with "1.prems" have "index = n" by simp
    then show ?thesis
      by (subst copy_samples.simps) simp
  qed
qed


lemma fg_trace_single [simp]:
  "fg_trace [(Foreground, a)] = [a]" "fg_trace [(Isr, a)] = []" "fg_trace [] = []"
  by (simp_all add: fg_trace_def)

lemma fg_trace_Cons [simp]:
  "fg_trace ((Foreground, a) # l) = a # fg_trace l" "fg_trace ((Isr, a) # l) = fg_trace l"
  by (simp_all add: fg_trace_def)




lemma emit_wf [simp]: "wf_audio cfg (emit c a s) = wf_audio cfg s"
  by (simp add: wf_audio_def)

lemma emit_ping_pong [simp]: "ping_pong (emit c a s) = ping_pong s"
  by (simp add: ping_pong_def)

lemma loop_repl_ping_pong: "ping_pong s \<Longrightarrow> ping_pong (loop_repl cfg sch s)"
  by (simp add: loop_repl_def Let_def fire_ping_pong)


lemma imu_update_wf [simp]:
  "wf_audio cfg (s\<lparr>imu_flag := b\<rparr>) = wf_audio cfg s"
  "wf_audio cfg (s\<lparr>transmit_imu := v\<rparr>) = wf_audio cfg s"
  "wf_audio cfg (s\<lparr>pdm_pcm_flag := b\<rparr>) = wf_audio cfg s"
  by (simp_all add: wf_audio_def)

lemma imu_update_ping_pong [simp]:
  "ping_pong (s\<lparr>imu_flag := b\<rparr>) = ping_pong s"
  "ping_pong (s\<lparr>transmit_imu := v\<rparr>) = ping_pong s"
  "ping_pong (s\<lparr>pdm_pcm_flag := b\<rparr>) = ping_pong s"
  "ping_pong (s\<lparr>transmit_pdm := d\<rparr>) = ping_pong s"
  by (simp_all add: ping_pong_def)


lemma loop_imu_ping_pong: "ping_pong s \<Longrightarrow> ping_pong (loop_imu cfg rd sch s)"
  by (simp add: loop_imu_def Let_def fire_ping_pong)


lemma feed_wf:
  assumes "wf_audio cfg s"
  shows "pdm_preprocessing_feed cfg s (transmit_pdm s) = deref s (full_rx_buffer s)
         \<and> (\<exists>buf. deref s (full_rx_buffer s) = Some buf \<and> length buf = FRAME_SIZE cfg)"
proof -
  obtain buf where buf: "deref s (full_rx_buffer s) = Some buf" "length buf = FRAME_SIZE cfg"
    using assms by (cases "full_rx_buffer s") (simp_all add: wf_audio_def deref_def)
  have "copy_samples (FRAME_SIZE cfg) 0 (transmit_pdm s) (Some buf) = Some buf"
    using assms buf(2) by (subst copy_samples_Some) (simp_all add: wf_audio_def)
  then show ?thesis using buf by (simp add: pdm_preprocessing_feed_def)
qed


lemma loop_pdm_idle: "\<not> pdm_pcm_flag s \<Longrightarrow> loop_pdm cfg sch s = Run s"
  by (simp add: loop_pdm_def)


lemma loop_pdm_ping_pong: "ping_pong s \<Longrightarrow> ping_pong (exec_state (loop_pdm cfg sch s))"
  by (simp add: loop_pdm_def Let_def fire_ping_pong split: option.split)

lemma loop_pdm_wf:
  assumes "wf_audio cfg s"
  shows "wf_audio cfg (exec_state (loop_pdm cfg sch s))"
proof (cases "pdm_pcm_flag s")
  case False
  then show ?thesis using assms by (simp add: loop_pdm_idle)
next
  case True
  define s2 where "s2 = fire cfg (sch 7)
                   (emit Foreground (Store_pdm_pcm_flag False)
                      ((fire cfg (sch 6) s)\<lparr>pdm_pcm_flag := False\<rparr>))"
  have wf2: "wf_audio cfg s2"
    unfolding s2_def using assms by (intro fire_wf) (simp add: fire_wf)
  obtain buf where feed: "pdm_preprocessing_feed cfg s2 (transmit_pdm s2) = Some buf"
      and len: "length buf = FRAME_SIZE cfg"
    using feed_wf [OF wf2] by auto
  have "wf_audio cfg (s2\<lparr>transmit_pdm := buf\<rparr>)"
    using wf2 len by (simp add: wf_audio_def)
  then have "wf_audio cfg (fire cfg (sch 8)
                          (emit Foreground Pdm_preprocessing_feed (s2\<lparr>transmit_pdm := buf\<rparr>)))"
    by (intro fire_wf) simp
  then show ?thesis
    using True feed unfolding loop_pdm_def s2_def Let_def by simp
qed


lemma ping_pong_sets:
  "ping_pong s \<longleftrightarrow>
     active_rx_buffer s \<noteq> full_rx_buffer s
     \<and> {active_rx_buffer s, full_rx_buffer s} = {PtrBuffer0, PtrBuffer1}"
  by (cases "active_rx_buffer s"; cases "full_rx_buffer s")
     (simp_all add: ping_pong_def doubleton_eq_iff)

lemma pdm_init_success:
  "pdm_init cfg h s0 = (CY_RSLT_SUCCESS, s) \<Longrightarrow>
     active_rx_buffer s = PtrBuffer0 \<and> full_rx_buffer s = PtrBuffer1 \<and> \<not> pdm_pcm_flag s"
  by (auto simp: pdm_init_def Let_def cyhal_pdm_pcm_read_async_def split: if_splits)

lemma reachable_ping_pong: "reachable cfg s \<Longrightarrow> ping_pong s"
proof (induction rule: reachable.induct)
  case (after_init h s0 s)
  from pdm_init_success [OF after_init] show ?case by (simp add: ping_pong_def)
next
  case (interrupt s i)
  from interrupt.IH show ?case by (rule handle_irq_ping_pong)
next
  case (repl s sch)
  from repl.IH show ?case by (rule loop_repl_ping_pong)
next
  case (imu_service s rd sch)
  from imu_service.IH show ?case by (rule loop_imu_ping_pong)
next
  case (pdm_service s sch)
  from pdm_service.IH show ?case by (rule loop_pdm_ping_pong)
qed

lemma pdm_init_all_success:
  assumes "pdm_clock_init h = CY_RSLT_SUCCESS" "pdm_pcm_init_result h = CY_RSLT_SUCCESS"
    "pdm_pcm_start_result h = CY_RSLT_SUCCESS"
  shows "pdm_init cfg h s0 = (CY_RSLT_SUCCESS, snd (pdm_init cfg h s0))"
  using assms by (simp add: pdm_init_def Let_def)

text \<open>
  C2. When every HAL call of \<^verbatim>\<open>pdm_init\<close> succeeds, \<^verbatim>\<open>pdm_init\<close> returns success from any
  state, also from the start-up state with both references null. A successful \<^verbatim>\<open>pdm_init\<close>
  leaves the active reference on \<^verbatim>\<open>audio_buffer0\<close> and the full reference on
  \<^verbatim>\<open>audio_buffer1\<close>. In every state reachable from there the two references differ and
  together are the two audio buffers. The handler of the PDM interrupt, the audio service of
  the foreground and a whole pass of the foreground loop each keep this invariant.
\<close>

theorem ping_pong_invariant:
  "(pdm_init cfg h s0 = (CY_RSLT_SUCCESS, s) \<longrightarrow>
      active_rx_buffer s = PtrBuffer0 \<and> full_rx_buffer s = PtrBuffer1)
   \<and> (reachable cfg s \<longrightarrow>
        active_rx_buffer s \<noteq> full_rx_buffer s
        \<and> {active_rx_buffer s, full_rx_buffer s} = {PtrBuffer0, PtrBuffer1})
   \<and> (ping_pong s \<longrightarrow>
        ping_pong (pdm_pcm_event_handler cfg s)
        \<and> ping_pong (exec_state (loop_pdm cfg sch s))
        \<and> ping_pong (exec_state (loop_pass cfg rd sch s)))
   \<and> (pdm_clock_init h = CY_RSLT_SUCCESS \<and> pdm_pcm_init_result h = CY_RSLT_SUCCESS
        \<and> pdm_pcm_start_result h = CY_RSLT_SUCCESS \<longrightarrow>
        fst (pdm_init cfg h s0) = CY_RSLT_SUCCESS
        \<and> active_rx_buffer (snd (pdm_init cfg h s0)) = PtrBuffer0
        \<and> full_rx_buffer (snd (pdm_init cfg h s0)) = PtrBuffer1
        \<and> reachable cfg (snd (pdm_init cfg h s0)))"
proof (intro conjI impI)
  assume "pdm_init cfg h s0 = (CY_RSLT_SUCCESS, s)"
  then show "active_rx_buffer s = PtrBuffer0" "full_rx_buffer s = PtrBuffer1"
    using pdm_init_success by blast+
next
  assume "reachable cfg s"
  then have "ping_pong s" by (rule reachable_ping_pong)
  then show "active_rx_buffer s \<noteq> full_rx_buffer s"
    "{active_rx_buffer s, full_rx_buffer s} = {PtrBuffer0, PtrBuffer1}"
    by (simp_all add: ping_pong_sets)
next
  assume pp: "ping_pong s"
  show "ping_pong (pdm_pcm_event_handler cfg s)"
    using handle_irq_ping_pong [OF pp, of cfg Pdm_async_complete] by simp
  show "ping_pong (exec_state (loop_pdm cfg sch s))"
    using pp by (rule loop_pdm_ping_pong)
  show "ping_pong (exec_state (loop_pass cfg rd sch s))"
    unfolding loop_pass_def
    by (intro loop_pdm_ping_pong loop_imu_ping_pong loop_repl_ping_pong pp)
next
  assume ok: "pdm_clock_init h = CY_RSLT_SUCCESS \<and> pdm_pcm_init_result h = CY_RSLT_SUCCESS
        \<and> pdm_pcm_start_result h = CY_RSLT_SUCCESS"
  then have i: "pdm_init cfg h s0 = (CY_RSLT_SUCCESS, snd (pdm_init cfg h s0))"
    by (intro pdm_init_all_success) simp_all
  from i show "fst (pdm_init cfg h s0) = CY_RSLT_SUCCESS"
    by (metis fst_conv)
  from pdm_init_success [OF i]
  show "active_rx_buffer (snd (pdm_init cfg h s0)) = PtrBuffer0"
    "full_rx_buffer (snd (pdm_init cfg h s0)) = PtrBuffer1"
    by simp_all
  from i show "reachable cfg (snd (pdm_init cfg h s0))"
    by (rule reachable.after_init)
qed

theorem ping_pong_invariant_witness:
  "active_rx_buffer (boot_state cfg_imu) = PtrNull
   \<and> full_rx_buffer (boot_state cfg_imu) = PtrNull
   \<and> pdm_clock_init hal_ok = CY_RSLT_SUCCESS
   \<and> pdm_pcm_init_result hal_ok = CY_RSLT_SUCCESS
   \<and> pdm_pcm_start_result hal_ok = CY_RSLT_SUCCESS
   \<and> pdm_init cfg_imu hal_ok (boot_state cfg_imu)
       = (CY_RSLT_SUCCESS, snd (pdm_init cfg_imu hal_ok (boot_state cfg_imu)))
   \<and> active_rx_buffer (snd (pdm_init cfg_imu hal_ok (boot_state cfg_imu))) = PtrBuffer0
   \<and> full_rx_buffer (snd (pdm_init cfg_imu hal_ok (boot_state cfg_imu))) = PtrBuffer1
   \<and> reachable cfg_imu (snd (pdm_init cfg_imu hal_ok (boot_state cfg_imu)))
   \<and> ping_pong (snd (pdm_init cfg_imu hal_ok (boot_state cfg_imu)))
   \<and> ping_pong (pdm_pcm_event_handler cfg_imu (snd (pdm_init cfg_imu hal_ok (boot_state cfg_imu))))
   \<and> active_rx_buffer
        (pdm_pcm_event_handler cfg_imu (snd (pdm_init cfg_imu hal_ok (boot_state cfg_imu))))
       = PtrBuffer1
   \<and> ping_pong (exec_state (loop_pdm cfg_imu no_irqs
        (pdm_pcm_event_handler cfg_imu (snd (pdm_init cfg_imu hal_ok (boot_state cfg_imu))))))"
proof -
  define s where "s = snd (pdm_init cfg_imu hal_ok (boot_state cfg_imu))"
  have b: "active_rx_buffer (boot_state cfg_imu) = PtrNull"
    "full_rx_buffer (boot_state cfg_imu) = PtrNull"
    by (simp_all add: boot_state_def)
  have ok: "pdm_clock_init hal_ok = CY_RSLT_SUCCESS \<and> pdm_pcm_init_result hal_ok = CY_RSLT_SUCCESS
        \<and> pdm_pcm_start_result hal_ok = CY_RSLT_SUCCESS"
    by (simp add: pdm_clock_init_def hal_ok_def CY_RSLT_SUCCESS_def)
  note t = ping_pong_invariant [of cfg_imu hal_ok "boot_state cfg_imu" s no_irqs imu_sample]
  from t ok have i: "fst (pdm_init cfg_imu hal_ok (boot_state cfg_imu)) = CY_RSLT_SUCCESS"
    and a: "active_rx_buffer s = PtrBuffer0" and f: "full_rx_buffer s = PtrBuffer1"
    and r: "reachable cfg_imu s"
    unfolding s_def by blast+
  from i have e: "pdm_init cfg_imu hal_ok (boot_state cfg_imu) = (CY_RSLT_SUCCESS, s)"
    unfolding s_def by (metis prod.collapse)
  have p: "ping_pong s"
    using a f by (simp add: ping_pong_def)
  from t p have h: "ping_pong (pdm_pcm_event_handler cfg_imu s)"
    by blast
  have nf: "\<not> pdm_pcm_flag s"
    using pdm_init_success [OF e] by simp
  have ha: "active_rx_buffer (pdm_pcm_event_handler cfg_imu s) = PtrBuffer1"
    using nf f by (simp add: handler_pointers)
  from ping_pong_invariant
         [of cfg_imu hal_ok "boot_state cfg_imu" "pdm_pcm_event_handler cfg_imu s" no_irqs imu_sample] h
  have l: "ping_pong (exec_state (loop_pdm cfg_imu no_irqs (pdm_pcm_event_handler cfg_imu s)))"
    by blast
  show ?thesis
    using b ok e a f r p h ha l unfolding s_def by blast
qed

text \<open>
  C10. When \<^verbatim>\<open>pdm_init\<close> returns a status other than success, the two references, the
  ready-flag and the buffers are as they were before the call, and the call has started no
  asynchronous read.
\<close>

theorem pdm_init_failure_leaves_state:
  "fst (pdm_init cfg h s) \<noteq> CY_RSLT_SUCCESS \<Longrightarrow>
     active_rx_buffer (snd (pdm_init cfg h s)) = active_rx_buffer s
     \<and> full_rx_buffer (snd (pdm_init cfg h s)) = full_rx_buffer s
     \<and> pdm_pcm_flag (snd (pdm_init cfg h s)) = pdm_pcm_flag s
     \<and> audio_buffer0 (snd (pdm_init cfg h s)) = audio_buffer0 s
     \<and> audio_buffer1 (snd (pdm_init cfg h s)) = audio_buffer1 s
     \<and> filter (\<lambda>e. is_read_async (snd e)) (new_events s (snd (pdm_init cfg h s))) = []"
  by (auto simp: pdm_init_def Let_def new_events_def split: if_splits)

theorem pdm_init_failure_leaves_state_witness:
  "fst (pdm_init cfg_imu hal_start_fails frame_pending) \<noteq> CY_RSLT_SUCCESS
   \<and> active_rx_buffer (snd (pdm_init cfg_imu hal_start_fails frame_pending)) = PtrBuffer0
   \<and> full_rx_buffer (snd (pdm_init cfg_imu hal_start_fails frame_pending)) = PtrBuffer1
   \<and> pdm_pcm_flag (snd (pdm_init cfg_imu hal_start_fails frame_pending))
   \<and> new_events frame_pending (snd (pdm_init cfg_imu hal_start_fails frame_pending))
        = [(Foreground, Cyhal_pdm_pcm_register_callback), (Foreground, Cyhal_pdm_pcm_enable_event)]"
proof -
  have h: "fst (pdm_init cfg_imu hal_start_fails frame_pending) \<noteq> CY_RSLT_SUCCESS"
    by (simp add: pdm_init_def pdm_clock_init_def hal_start_fails_def hal_ok_def
        CY_RSLT_SUCCESS_def Let_def)
  have e: "new_events frame_pending (snd (pdm_init cfg_imu hal_start_fails frame_pending))
        = [(Foreground, Cyhal_pdm_pcm_register_callback), (Foreground, Cyhal_pdm_pcm_enable_event)]"
    by (simp add: pdm_init_def pdm_clock_init_def hal_start_fails_def hal_ok_def
        CY_RSLT_SUCCESS_def Let_def new_events_def frame_pending_def)
  show ?thesis
    using h e pdm_init_failure_leaves_state [OF h] by (simp add: frame_pending_def)
qed



lemma loop_pdm_frame_pending:
  "loop_pdm cfg_imu no_irqs frame_pending =
     Run (frame_pending\<lparr>pdm_pcm_flag := False, transmit_pdm := [3, 4],
            log := [(Foreground, Store_pdm_pcm_flag False), (Foreground, Pdm_preprocessing_feed),
                    (Foreground, Protocol_send PROTOCOL_AUDIO_CHANNEL (Pdm_frame [3, 4]) 4)]\<rparr>)"
  by (simp add: loop_pdm_def no_irqs_def pdm_preprocessing_feed_def deref_def frame_pending_def
      cfg_imu_def emit_def copy_samples.simps Let_def)

section \<open>The foreground loop\<close>

lemma feed_preempted_quiet:
  "pdm_preprocessing_feed_preempted cfg (\<lambda>k. []) index s d =
     map_option (Pair s) (copy_samples (FRAME_SIZE cfg) index d (deref s (full_rx_buffer s)))"
proof (induction cfg "\<lambda>k :: nat. [] :: irq list" index s d
        rule: pdm_preprocessing_feed_preempted.induct)
  case (1 cfg index s d)
  show ?case
  proof (cases "index < FRAME_SIZE cfg")
    case False
    then show ?thesis
      by (subst pdm_preprocessing_feed_preempted.simps, subst copy_samples.simps) simp
  next
    case lt: True
    show ?thesis
    proof (cases "deref s (full_rx_buffer s)")
      case None
      then show ?thesis
        using lt by (subst pdm_preprocessing_feed_preempted.simps, subst copy_samples.simps) simp
    next
      case (Some buf)
      show ?thesis
      proof (cases "index < length buf \<and> index < length d")
        case False
        then show ?thesis
          using lt Some
          by (subst pdm_preprocessing_feed_preempted.simps, subst copy_samples.simps) auto
      next
        case True
        from "1.hyps" [OF lt Some True]
        have ih: "pdm_preprocessing_feed_preempted cfg (\<lambda>k. []) (index + 1) s (d[index := buf ! index]) =
            map_option (Pair s)
              (copy_samples (FRAME_SIZE cfg) (index + 1) (d[index := buf ! index])
                 (deref s (full_rx_buffer s)))"
          by simp
        have l: "pdm_preprocessing_feed_preempted cfg (\<lambda>k. []) index s d =
            pdm_preprocessing_feed_preempted cfg (\<lambda>k. []) (index + 1) s (d[index := buf ! index])"
          using lt Some True by (subst pdm_preprocessing_feed_preempted.simps) simp
        have r: "copy_samples (FRAME_SIZE cfg) index d (deref s (full_rx_buffer s)) =
            copy_samples (FRAME_SIZE cfg) (index + 1) (d[index := buf ! index])
              (deref s (full_rx_buffer s))"
          using lt Some True by (subst copy_samples.simps) simp
        show ?thesis
          by (simp only: l r ih)
      qed
    qed
  qed
qed

lemma loop_pdm_preempted_quiet: "loop_pdm_preempted cfg sch (\<lambda>k. []) s = loop_pdm cfg sch s"
  by (simp add: loop_pdm_preempted_def loop_pdm_def feed_preempted_quiet
      pdm_preprocessing_feed_def Let_def split: option.split)

lemma loop_pass_after_clear:
  "loop_pass cfg_imu imu_sample irq_after_clear frame_pending =
     Run (frame_pending\<lparr>active_rx_buffer := PtrBuffer1, full_rx_buffer := PtrBuffer0,
            pdm_pcm_flag := True, transmit_pdm := [1, 2],
            log := [(Foreground, Protocol_repl),
                    (Foreground, Store_pdm_pcm_flag False),
                    (Isr, Store_pdm_pcm_flag True), (Isr, Cyhal_pdm_pcm_read_async PtrBuffer1 2),
                    (Foreground, Pdm_preprocessing_feed),
                    (Foreground, Protocol_send PROTOCOL_AUDIO_CHANNEL (Pdm_frame [1, 2]) 4)]\<rparr>)"
  by (simp add: loop_pass_def loop_repl_def loop_imu_def loop_pdm_def irq_after_clear_def
      pdm_preprocessing_feed_def deref_def frame_pending_def cfg_imu_def imu_if_def emit_def
      pdm_pcm_event_handler_def cyhal_pdm_pcm_read_async_def
      copy_samples.simps Let_def)

lemma loop_pass_second:
  "loop_pass cfg_imu imu_sample no_irqs
     (exec_state (loop_pass cfg_imu imu_sample irq_after_clear frame_pending)) =
     Run (frame_pending\<lparr>active_rx_buffer := PtrBuffer1, full_rx_buffer := PtrBuffer0,
            pdm_pcm_flag := False, transmit_pdm := [1, 2],
            log := [(Foreground, Protocol_repl),
                    (Foreground, Store_pdm_pcm_flag False),
                    (Isr, Store_pdm_pcm_flag True), (Isr, Cyhal_pdm_pcm_read_async PtrBuffer1 2),
                    (Foreground, Pdm_preprocessing_feed),
                    (Foreground, Protocol_send PROTOCOL_AUDIO_CHANNEL (Pdm_frame [1, 2]) 4),
                    (Foreground, Protocol_repl),
                    (Foreground, Store_pdm_pcm_flag False),
                    (Foreground, Pdm_preprocessing_feed),
                    (Foreground, Protocol_send PROTOCOL_AUDIO_CHANNEL (Pdm_frame [1, 2]) 4)]\<rparr>)"
  by (simp add: loop_pass_after_clear)
     (simp add: loop_pass_def loop_repl_def loop_imu_def loop_pdm_def no_irqs_def
      pdm_preprocessing_feed_def deref_def frame_pending_def cfg_imu_def imu_if_def emit_def
      copy_samples.simps Let_def)

lemma loop_pdm_torn:
  "loop_pdm_preempted cfg_imu no_irqs irq_in_copy frame_pending =
     Run (frame_pending\<lparr>active_rx_buffer := PtrBuffer1, full_rx_buffer := PtrBuffer0,
            pdm_pcm_flag := True, transmit_pdm := [3, 2],
            log := [(Foreground, Store_pdm_pcm_flag False),
                    (Isr, Store_pdm_pcm_flag True), (Isr, Cyhal_pdm_pcm_read_async PtrBuffer1 2),
                    (Foreground, Pdm_preprocessing_feed),
                    (Foreground, Protocol_send PROTOCOL_AUDIO_CHANNEL (Pdm_frame [3, 2]) 4)]\<rparr>)"
  by (simp add: loop_pdm_preempted_def no_irqs_def irq_in_copy_def
      pdm_preprocessing_feed_preempted.simps deref_def frame_pending_def cfg_imu_def emit_def
      pdm_pcm_event_handler_def cyhal_pdm_pcm_read_async_def Let_def)

text \<open>
  C3 at a failing input. A frame (\<open>[3, 4]\<close>) is pending in the full buffer and the next
  capture (\<open>[1, 2]\<close>) completes while the foreground services the audio channel. The service
  clears the flag first, then copies, then sends, so the order the specification asks
  for does not hold. With the flag already clear, the handler of an interrupt that arrives
  before the copy swaps the buffers: the pass sends \<open>[1, 2]\<close>, the next pass sends \<open>[1, 2]\<close>
  again, and the pending \<open>[3, 4]\<close> is never sent. When the interrupt arrives inside the copy
  loop, after its first iteration, the frame sent is \<open>[3, 2]\<close>, half of each buffer.
\<close>

theorem audio_service_clear_before_copy:
  "pdm_pcm_flag frame_pending
   \<and> deref frame_pending (full_rx_buffer frame_pending) = Some [3, 4]
   \<and> fg_trace (new_events frame_pending (exec_state (loop_pdm cfg_imu no_irqs frame_pending)))
       = [Store_pdm_pcm_flag False, Pdm_preprocessing_feed,
          Protocol_send PROTOCOL_AUDIO_CHANNEL (Pdm_frame [3, 4]) 4]
   \<and> \<not> spec_copy_then_clear
         (fg_trace (new_events frame_pending (exec_state (loop_pdm cfg_imu no_irqs frame_pending))))
   \<and> fg_trace (log (exec_state (loop_pass cfg_imu imu_sample no_irqs
         (exec_state (loop_pass cfg_imu imu_sample irq_after_clear frame_pending)))))
       = [Protocol_repl, Store_pdm_pcm_flag False, Pdm_preprocessing_feed,
          Protocol_send PROTOCOL_AUDIO_CHANNEL (Pdm_frame [1, 2]) 4,
          Protocol_repl, Store_pdm_pcm_flag False, Pdm_preprocessing_feed,
          Protocol_send PROTOCOL_AUDIO_CHANNEL (Pdm_frame [1, 2]) 4]
   \<and> fg_trace (new_events frame_pending
         (exec_state (loop_pdm_preempted cfg_imu no_irqs irq_in_copy frame_pending)))
       = [Store_pdm_pcm_flag False, Pdm_preprocessing_feed,
          Protocol_send PROTOCOL_AUDIO_CHANNEL (Pdm_frame [3, 2]) 4]"
proof -
  have a: "pdm_pcm_flag frame_pending"
    "deref frame_pending (full_rx_buffer frame_pending) = Some [3, 4]"
    by (simp_all add: frame_pending_def deref_def)
  have b: "fg_trace (new_events frame_pending (exec_state (loop_pdm cfg_imu no_irqs frame_pending)))
       = [Store_pdm_pcm_flag False, Pdm_preprocessing_feed,
          Protocol_send PROTOCOL_AUDIO_CHANNEL (Pdm_frame [3, 4]) 4]"
    by (simp add: loop_pdm_frame_pending new_events_def) (simp add: frame_pending_def)
  have c: "\<not> spec_copy_then_clear
         (fg_trace (new_events frame_pending (exec_state (loop_pdm cfg_imu no_irqs frame_pending))))"
    by (simp add: b spec_copy_then_clear_def)
  have d: "fg_trace (log (exec_state (loop_pass cfg_imu imu_sample no_irqs
         (exec_state (loop_pass cfg_imu imu_sample irq_after_clear frame_pending)))))
       = [Protocol_repl, Store_pdm_pcm_flag False, Pdm_preprocessing_feed,
          Protocol_send PROTOCOL_AUDIO_CHANNEL (Pdm_frame [1, 2]) 4,
          Protocol_repl, Store_pdm_pcm_flag False, Pdm_preprocessing_feed,
          Protocol_send PROTOCOL_AUDIO_CHANNEL (Pdm_frame [1, 2]) 4]"
    by (simp add: loop_pass_second)
  have e: "fg_trace (new_events frame_pending
         (exec_state (loop_pdm_preempted cfg_imu no_irqs irq_in_copy frame_pending)))
       = [Store_pdm_pcm_flag False, Pdm_preprocessing_feed,
          Protocol_send PROTOCOL_AUDIO_CHANNEL (Pdm_frame [3, 2]) 4]"
    by (simp add: loop_pdm_torn new_events_def) (simp add: frame_pending_def)
  show ?thesis
    using a b c d e by blast
qed





section \<open>Start-up\<close>

text \<open>
  C4 at a failing input: the IMU is enabled, \<^verbatim>\<open>pdm_init\<close> returns the non-success status of
  \<^verbatim>\<open>cyhal_pdm_pcm_start\<close>, and \<^verbatim>\<open>imu_init\<close> returns success. The assignment of line 117
  overwrites the status of \<^verbatim>\<open>pdm_init\<close>, so \<^verbatim>\<open>main\<close> does not call
  \<^verbatim>\<open>NVIC_SystemReset\<close>; it enters the loop, and when the IMU timer fires the first pass
  sends an IMU frame.
\<close>

theorem main_pdm_failure_masked_by_imu_init:
  "imu_ifdef cfg_imu
   \<and> fst (pdm_init cfg_imu (pdm_hal_results env_pdm_fails)
            ((boot_state cfg_imu)\<lparr>transmit_pdm := [0, 0]\<rparr>)) \<noteq> CY_RSLT_SUCCESS
   \<and> imu_init_result env_pdm_fails = CY_RSLT_SUCCESS
   \<and> main cfg_imu env_pdm_fails (Suc 0) =
       Run \<lparr> audio_buffer0 = [0, 0], audio_buffer1 = [0, 0],
             active_rx_buffer = PtrNull, full_rx_buffer = PtrNull,
             pdm_pcm_flag = False, imu_flag = False,
             transmit_pdm = [0, 0], transmit_imu = [1, 2, 3],
             log = [(Foreground, Streaming_init), (Foreground, Protocol_init),
                    (Foreground, Cyhal_pdm_pcm_register_callback),
                    (Foreground, Cyhal_pdm_pcm_enable_event),
                    (Isr, Store_imu_flag True),
                    (Foreground, Protocol_repl),
                    (Foreground, Store_imu_flag False),
                    (Foreground, Imu_get_data),
                    (Foreground, Protocol_send PROTOCOL_IMU_CHANNEL (Imu_frame [1, 2, 3]) 12)] \<rparr>
   \<and> (Foreground, NVIC_SystemReset) \<notin> set (log (exec_state (main cfg_imu env_pdm_fails (Suc 0))))"
proof -
  have m: "main cfg_imu env_pdm_fails (Suc 0) =
       Run \<lparr> audio_buffer0 = [0, 0], audio_buffer1 = [0, 0],
             active_rx_buffer = PtrNull, full_rx_buffer = PtrNull,
             pdm_pcm_flag = False, imu_flag = False,
             transmit_pdm = [0, 0], transmit_imu = [1, 2, 3],
             log = [(Foreground, Streaming_init), (Foreground, Protocol_init),
                    (Foreground, Cyhal_pdm_pcm_register_callback),
                    (Foreground, Cyhal_pdm_pcm_enable_event),
                    (Isr, Store_imu_flag True),
                    (Foreground, Protocol_repl),
                    (Foreground, Store_imu_flag False),
                    (Foreground, Imu_get_data),
                    (Foreground, Protocol_send PROTOCOL_IMU_CHANNEL (Imu_frame [1, 2, 3]) 12)] \<rparr>"
    by (simp add: main_def boot_state_def cfg_imu_def env_pdm_fails_def hal_start_fails_def
        hal_ok_def pdm_init_def pdm_clock_init_def CY_RSLT_SUCCESS_def imu_ifdef_def imu_if_def
        loop_pass_def loop_repl_def loop_imu_def loop_pdm_def emit_def imu_timer_intr_handler_def
        Let_def numeral_2_eq_2 numeral_3_eq_3)
  have p: "fst (pdm_init cfg_imu (pdm_hal_results env_pdm_fails)
            ((boot_state cfg_imu)\<lparr>transmit_pdm := [0, 0]\<rparr>)) \<noteq> CY_RSLT_SUCCESS"
    by (simp add: env_pdm_fails_def hal_start_fails_def hal_ok_def pdm_init_def
        pdm_clock_init_def CY_RSLT_SUCCESS_def Let_def)
  show ?thesis
    by (simp add: m p) (simp add: imu_ifdef_def cfg_imu_def env_pdm_fails_def CY_RSLT_SUCCESS_def)
qed

section \<open>Timer constants\<close>

text \<open>
  C9. With the timer base of 100000 Hz the period programmed for the pressure channel is
  \<open>100000 / 50 = 2000\<close> ticks and the one for the radar channel is \<open>100000 / 16 = 6250\<close>
  ticks; both divisions leave no remainder, and these are the periods that
  \<^verbatim>\<open>dps_timer_init\<close> and \<^verbatim>\<open>radar_timer_init\<close> put into the timer configuration.
\<close>

theorem timer_periods_exact:
  "DPS_TIMER_FREQUENCY = 100000 \<and> DPS_SCAN_RATE = 50
   \<and> DPS_TIMER_PERIOD = 2000
   \<and> DPS_TIMER_PERIOD * DPS_SCAN_RATE = DPS_TIMER_FREQUENCY
   \<and> DPS_TIMER_FREQUENCY mod DPS_SCAN_RATE = 0
   \<and> period dps_timer_cfg = 2000
   \<and> RADAR_TIMER_FREQUENCY = 100000 \<and> RADAR_SCAN_RATE = 16
   \<and> RADAR_TIMER_PERIOD = 6250
   \<and> RADAR_TIMER_PERIOD * RADAR_SCAN_RATE = RADAR_TIMER_FREQUENCY
   \<and> RADAR_TIMER_FREQUENCY mod RADAR_SCAN_RATE = 0
   \<and> period radar_timer_cfg = 6250"
  by (simp add: DPS_TIMER_PERIOD_def DPS_TIMER_FREQUENCY_def DPS_SCAN_RATE_def dps_timer_cfg_def
      RADAR_TIMER_PERIOD_def RADAR_TIMER_FREQUENCY_def RADAR_SCAN_RATE_def radar_timer_cfg_def)

section \<open>Polled sensors\<close>

text \<open>
  C6. When the driver call of a polled read returns a status other than success, the
  caller's buffer is as it was: \<^verbatim>\<open>dps_get_data\<close> stores neither pressure nor temperature
  and returns the failing status, and \<^verbatim>\<open>radar_get_data\<close> copies nothing.
\<close>

theorem polled_read_failure_keeps_buffer:
  "(fst rd \<noteq> CY_RSLT_SUCCESS \<longrightarrow> dps_get_data rd dps_data = Some (fst rd, dps_data))
   \<and> (fst (get_fifo_data bgt60_buffer (NUM_SAMPLES_PER_FRAME rc)) \<noteq> CY_RSLT_SUCCESS \<longrightarrow>
        radar_get_data rc get_fifo_data bgt60_buffer radar_data =
          Some (if IM_ENABLE_RADAR rc
                then snd (get_fifo_data bgt60_buffer (NUM_SAMPLES_PER_FRAME rc))
                else bgt60_buffer,
                radar_data))"
  by (auto simp: dps_get_data_def radar_get_data_def split: prod.splits)

theorem polled_read_failure_keeps_buffer_witness:
  "fst (1 :: cy_rslt_t, 5 :: float32, 6 :: float32) \<noteq> CY_RSLT_SUCCESS
   \<and> dps_get_data (1, 5, 6) [7, 8] = Some (1, [7, 8])
   \<and> fst (fifo_fails [0, 0] (NUM_SAMPLES_PER_FRAME radar_cfg_full)) \<noteq> CY_RSLT_SUCCESS
   \<and> radar_get_data radar_cfg_full fifo_fails [0, 0] [7, 8] = Some ([9, 9], [7, 8])"
  using polled_read_failure_keeps_buffer
          [of "(1, 5, 6)" "[7, 8]" fifo_fails "[0, 0]" radar_cfg_full "[7, 8]"]
  by (simp add: CY_RSLT_SUCCESS_def fifo_fails_def radar_cfg_full_def radar_cfg_short_def)

text \<open>
  C8, as the code has it. \<^verbatim>\<open>radar_get_data\<close> asks the driver for \<open>NUM_SAMPLES_PER_FRAME\<close>
  samples. When that read succeeds and leaves \<open>NUM_SAMPLES_PER_FRAME\<close> samples in the capture
  buffer, \<^verbatim>\<open>radar_get_data\<close> copies the first \<open>RADAR_AXIS\<close> of them into the caller's buffer
  and leaves every later element of that buffer as it was. When \<open>RADAR_AXIS\<close> equals
  \<open>NUM_SAMPLES_PER_FRAME\<close>, the caller's buffer then starts with the whole captured frame.
\<close>

theorem radar_get_data_copies_radar_axis:
  "IM_ENABLE_RADAR rc \<Longrightarrow>
   get_fifo_data bgt60_buffer (NUM_SAMPLES_PER_FRAME rc) = (CY_RSLT_SUCCESS, captured) \<Longrightarrow>
   length captured = NUM_SAMPLES_PER_FRAME rc \<Longrightarrow>
   RADAR_AXIS rc \<le> NUM_SAMPLES_PER_FRAME rc \<Longrightarrow> RADAR_AXIS rc \<le> length radar_data \<Longrightarrow>
     \<exists>d. radar_get_data rc get_fifo_data bgt60_buffer radar_data = Some (captured, d)
       \<and> d = take (RADAR_AXIS rc) captured @ drop (RADAR_AXIS rc) radar_data
       \<and> length d = length radar_data
       \<and> take (RADAR_AXIS rc) d = take (RADAR_AXIS rc) captured
       \<and> drop (RADAR_AXIS rc) d = drop (RADAR_AXIS rc) radar_data
       \<and> (RADAR_AXIS rc = NUM_SAMPLES_PER_FRAME rc \<longrightarrow>
            take (NUM_SAMPLES_PER_FRAME rc) d = captured
            \<and> spec_full_frame_copied rc
                 (radar_get_data rc get_fifo_data bgt60_buffer radar_data))"
proof -
  assume en: "IM_ENABLE_RADAR rc"
    and rd: "get_fifo_data bgt60_buffer (NUM_SAMPLES_PER_FRAME rc) = (CY_RSLT_SUCCESS, captured)"
    and lc: "length captured = NUM_SAMPLES_PER_FRAME rc"
    and l1: "RADAR_AXIS rc \<le> NUM_SAMPLES_PER_FRAME rc"
    and l2: "RADAR_AXIS rc \<le> length radar_data"
  define d where "d = take (RADAR_AXIS rc) captured @ drop (RADAR_AXIS rc) radar_data"
  have l1': "RADAR_AXIS rc \<le> length captured"
    using l1 lc by simp
  have "copy_samples (RADAR_AXIS rc) 0 radar_data (Some captured) = Some d"
    using l1' l2 unfolding d_def by (subst copy_samples_Some) simp_all
  then have r: "radar_get_data rc get_fifo_data bgt60_buffer radar_data = Some (captured, d)"
    using en rd by (simp add: radar_get_data_def)
  have len: "length d = length radar_data"
    using l1' l2 by (simp add: d_def)
  have tk: "take (RADAR_AXIS rc) d = take (RADAR_AXIS rc) captured"
    using l1' by (simp add: d_def)
  have dr: "drop (RADAR_AXIS rc) d = drop (RADAR_AXIS rc) radar_data"
    using l1' by (simp add: d_def)
  have full: "RADAR_AXIS rc = NUM_SAMPLES_PER_FRAME rc \<longrightarrow>
            take (NUM_SAMPLES_PER_FRAME rc) d = captured
            \<and> spec_full_frame_copied rc
                 (radar_get_data rc get_fifo_data bgt60_buffer radar_data)"
  proof
    assume eq: "RADAR_AXIS rc = NUM_SAMPLES_PER_FRAME rc"
    have "take (NUM_SAMPLES_PER_FRAME rc) d = take (NUM_SAMPLES_PER_FRAME rc) captured"
      using tk eq by simp
    then show "take (NUM_SAMPLES_PER_FRAME rc) d = captured
            \<and> spec_full_frame_copied rc
                 (radar_get_data rc get_fifo_data bgt60_buffer radar_data)"
      using lc by (simp add: r spec_full_frame_copied_def)
  qed
  show ?thesis
    using r len tk dr full d_def by blast
qed

theorem radar_get_data_copies_radar_axis_witness:
  "IM_ENABLE_RADAR radar_cfg_full
   \<and> fifo_ok [0, 0] (NUM_SAMPLES_PER_FRAME radar_cfg_full) = (CY_RSLT_SUCCESS, [1, 2])
   \<and> length [1 :: uint16_t, 2] = NUM_SAMPLES_PER_FRAME radar_cfg_full
   \<and> RADAR_AXIS radar_cfg_full = NUM_SAMPLES_PER_FRAME radar_cfg_full
   \<and> radar_get_data radar_cfg_full fifo_ok [0, 0] [7, 8, 9] = Some ([1, 2], [1, 2, 9])
   \<and> spec_full_frame_copied radar_cfg_full
        (radar_get_data radar_cfg_full fifo_ok [0, 0] [7, 8, 9])
   \<and> IM_ENABLE_RADAR radar_cfg_short
   \<and> RADAR_AXIS radar_cfg_short < NUM_SAMPLES_PER_FRAME radar_cfg_short
   \<and> radar_get_data radar_cfg_short fifo_ok [0, 0] [7, 8, 9] = Some ([1, 2], [1, 8, 9])"
proof -
  have a: "IM_ENABLE_RADAR radar_cfg_full" "IM_ENABLE_RADAR radar_cfg_short"
    by (simp_all add: radar_cfg_full_def radar_cfg_short_def)
  have n: "NUM_SAMPLES_PER_FRAME radar_cfg_full = 2" "NUM_SAMPLES_PER_FRAME radar_cfg_short = 2"
    by (simp_all add: radar_cfg_full_def radar_cfg_short_def NUM_SAMPLES_PER_FRAME_def)
  have x: "RADAR_AXIS radar_cfg_full = 2" "RADAR_AXIS radar_cfg_short = 1"
    by (simp_all add: radar_cfg_full_def radar_cfg_short_def)
  have b: "fifo_ok [0, 0] (NUM_SAMPLES_PER_FRAME radar_cfg_full) = (CY_RSLT_SUCCESS, [1, 2])"
    "fifo_ok [0, 0] (NUM_SAMPLES_PER_FRAME radar_cfg_short) = (CY_RSLT_SUCCESS, [1, 2])"
    by (simp_all add: fifo_ok_def)
  have c: "length [1 :: uint16_t, 2] = NUM_SAMPLES_PER_FRAME radar_cfg_full"
    "length [1 :: uint16_t, 2] = NUM_SAMPLES_PER_FRAME radar_cfg_short"
    by (simp_all add: n)
  have d: "RADAR_AXIS radar_cfg_full \<le> NUM_SAMPLES_PER_FRAME radar_cfg_full"
    "RADAR_AXIS radar_cfg_short \<le> NUM_SAMPLES_PER_FRAME radar_cfg_short"
    by (simp_all add: n x)
  have e: "RADAR_AXIS radar_cfg_full \<le> length [7 :: int16_t, 8, 9]"
    "RADAR_AXIS radar_cfg_short \<le> length [7 :: int16_t, 8, 9]"
    by (simp_all add: x)
  from radar_get_data_copies_radar_axis
         [of radar_cfg_full fifo_ok "[0, 0]" "[1, 2]" "[7, 8, 9]", OF a(1) b(1) c(1) d(1) e(1)]
  have g1: "radar_get_data radar_cfg_full fifo_ok [0, 0] [7, 8, 9] = Some ([1, 2], [1, 2, 9])"
    and g2: "spec_full_frame_copied radar_cfg_full
        (radar_get_data radar_cfg_full fifo_ok [0, 0] [7, 8, 9])"
    by (auto simp: x n)
  from radar_get_data_copies_radar_axis
         [of radar_cfg_short fifo_ok "[0, 0]" "[1, 2]" "[7, 8, 9]", OF a(2) b(2) c(2) d(2) e(2)]
  have g3: "radar_get_data radar_cfg_short fifo_ok [0, 0] [7, 8, 9] = Some ([1, 2], [1, 8, 9])"
    by (auto simp: x n)
  show ?thesis
    using a b(1) c(1) g1 g2 g3 by (simp add: n x)
qed

text \<open>
  C8, as stated, fails where \<open>RADAR_AXIS\<close> is smaller than \<open>NUM_SAMPLES_PER_FRAME\<close>: with
  \<open>RADAR_AXIS = 1\<close> and a frame of two samples, the second sample of a successful read
  does not reach the caller's buffer.
\<close>

theorem radar_get_data_full_frame_counterexample:
  "NUM_SAMPLES_PER_FRAME radar_cfg_short = 2
   \<and> fst (fifo_ok [0, 0] (NUM_SAMPLES_PER_FRAME radar_cfg_short)) = CY_RSLT_SUCCESS
   \<and> radar_get_data radar_cfg_short fifo_ok [0, 0] [0, 0] = Some ([1, 2], [1, 0])
   \<and> \<not> spec_full_frame_copied radar_cfg_short
          (radar_get_data radar_cfg_short fifo_ok [0, 0] [0, 0])"
  by (simp add: radar_get_data_def radar_cfg_short_def NUM_SAMPLES_PER_FRAME_def fifo_ok_def
      spec_full_frame_copied_def copy_samples.simps)

text \<open>
  C7, as the code has it. A failure of the I2C initialisation of the pressure sensor is met
  by \<^verbatim>\<open>CY_ASSERT(0)\<close>: where the assertion halts, \<^verbatim>\<open>dps_init\<close> does not return. Otherwise
  \<^verbatim>\<open>dps_init\<close> returns, with \<^verbatim>\<open>dps_flag\<close> cleared; it returns a status other than success
  whenever one of the four timer steps (init, configure, set frequency, start) returns one,
  it returns success only when the four timer steps succeed, and it returns success when
  every step succeeds.
\<close>

theorem dps_init_timer_status:
  "(init_i2c h \<noteq> CY_RSLT_SUCCESS \<and> assert_halts \<longrightarrow> dps_init assert_halts h = Halts)
   \<and> (init_i2c h = CY_RSLT_SUCCESS \<or> \<not> assert_halts \<longrightarrow>
        (\<exists>r. dps_init assert_halts h = Returns (r, False)
           \<and> (cyhal_timer_init (dps_timer h) \<noteq> CY_RSLT_SUCCESS
               \<or> cyhal_timer_configure (dps_timer h) dps_timer_cfg \<noteq> CY_RSLT_SUCCESS
               \<or> cyhal_timer_set_frequency (dps_timer h) 100000 \<noteq> CY_RSLT_SUCCESS
               \<or> cyhal_timer_start (dps_timer h) \<noteq> CY_RSLT_SUCCESS
               \<longrightarrow> r \<noteq> CY_RSLT_SUCCESS)
           \<and> (r = CY_RSLT_SUCCESS \<longrightarrow>
                 cyhal_timer_init (dps_timer h) = CY_RSLT_SUCCESS
               \<and> cyhal_timer_configure (dps_timer h) dps_timer_cfg = CY_RSLT_SUCCESS
               \<and> cyhal_timer_set_frequency (dps_timer h) 100000 = CY_RSLT_SUCCESS
               \<and> cyhal_timer_start (dps_timer h) = CY_RSLT_SUCCESS)
           \<and> (init_i2c h = CY_RSLT_SUCCESS
               \<and> get_config_pressure h = CY_RSLT_SUCCESS
               \<and> set_config_pressure h = CY_RSLT_SUCCESS
               \<and> get_config_temperature h = CY_RSLT_SUCCESS
               \<and> set_config_temperature h = CY_RSLT_SUCCESS
               \<and> cyhal_timer_init (dps_timer h) = CY_RSLT_SUCCESS
               \<and> cyhal_timer_configure (dps_timer h) dps_timer_cfg = CY_RSLT_SUCCESS
               \<and> cyhal_timer_set_frequency (dps_timer h) 100000 = CY_RSLT_SUCCESS
               \<and> cyhal_timer_start (dps_timer h) = CY_RSLT_SUCCESS
               \<longrightarrow> r = CY_RSLT_SUCCESS)))"
  by (auto simp: dps_init_def dps_timer_init_def DPS_TIMER_FREQUENCY_def Let_def)

theorem dps_init_timer_status_witness:
  "init_i2c dps_hal_i2c_fails \<noteq> CY_RSLT_SUCCESS
   \<and> dps_init True dps_hal_i2c_fails = Halts
   \<and> init_i2c dps_hal_start_fails = CY_RSLT_SUCCESS
   \<and> cyhal_timer_start (dps_timer dps_hal_start_fails) \<noteq> CY_RSLT_SUCCESS
   \<and> dps_init True dps_hal_start_fails = Returns (1, False)
   \<and> dps_init True dps_hal_ok = Returns (CY_RSLT_SUCCESS, False)"
proof -
  have e: "dps_init True dps_hal_start_fails = Returns (1, False)"
    "dps_init True dps_hal_ok = Returns (CY_RSLT_SUCCESS, False)"
    by (simp_all add: dps_init_def dps_timer_init_def dps_hal_start_fails_def dps_hal_ok_def
        timer_ok_def CY_RSLT_SUCCESS_def Let_def)
  show ?thesis
    using dps_init_timer_status [of dps_hal_i2c_fails True]
      dps_init_timer_status [of dps_hal_start_fails True]
      dps_init_timer_status [of dps_hal_ok True] e
    by (simp add: dps_hal_i2c_fails_def dps_hal_start_fails_def dps_hal_ok_def timer_ok_def
        CY_RSLT_SUCCESS_def)
qed

text \<open>
  C7, as stated, fails at a failure of the I2C initialisation: \<^verbatim>\<open>dps_init\<close> then either
  stops at the assertion or, where the assertion is compiled out, goes on and returns
  success; it never returns the failing status.
\<close>

theorem dps_init_i2c_failure_counterexample:
  "init_i2c dps_hal_i2c_fails \<noteq> CY_RSLT_SUCCESS
   \<and> dps_init True dps_hal_i2c_fails = Halts
   \<and> dps_init False dps_hal_i2c_fails = Returns (CY_RSLT_SUCCESS, False)"
  by (simp add: dps_init_def dps_timer_init_def dps_hal_i2c_fails_def dps_hal_ok_def
      timer_ok_def CY_RSLT_SUCCESS_def Let_def)

end
